theory Spec2Isabelle
  imports Main "HOL-Library.Sublist"
begin

section \<open>JavaScript values as the builders see them\<close>

text \<open>
  The helpers receive plain JavaScript data: a payload or a row is an object, its
  properties hold strings, numbers, booleans, \<^verbatim>\<open>null\<close> or nothing at all.
  An object is kept as the list of its own properties in the order
  \<^verbatim>\<open>Object.keys\<close> enumerates them; for property names that are not array
  indices (all the names this application uses) that is the order of insertion.
  Numbers are the integers that a JavaScript number holds exactly (magnitude below
  \<open>2^53\<close>), which print in plain decimal notation, together with \<open>JNaN\<close>, the
  value a failed numeric coercion produces. \<open>JFun\<close> is a built-in function, known
  by its name: the members that every object inherits are of this kind.
\<close>

datatype js_value =
    JUndefined
  | JNull
  | JBool bool
  | JNum int
  | JNaN
  | JStr string
  | JArr "js_value list"
  | JObj "(string \<times> js_value) list"
  | JFun string

type_synonym js_object = "(string \<times> js_value) list"

definition dq :: char where
  "dq = CHR 0x22"

definition nl :: char where
  "nl = CHR 0x0A"

definition digit_char :: "nat \<Rightarrow> char" where
  "digit_char d = ''0123456789'' ! d"

definition digit_of_char :: "char \<Rightarrow> nat" where
  "digit_of_char c = of_char c - 48"

text \<open>Decimal rendering of a non-negative integer, as a template literal prints it.\<close>

fun string_of_nat :: "nat \<Rightarrow> string" where
  "string_of_nat n =
     (if n < 10 then [digit_char n]
      else string_of_nat (n div 10) @ [digit_char (n mod 10)])"

declare string_of_nat.simps [simp del]

definition string_of_int :: "int \<Rightarrow> string" where
  "string_of_int i = (if i < 0 then ''-'' @ string_of_nat (nat (- i)) else string_of_nat (nat i))"

text \<open>\<^verbatim>\<open>Array.prototype.join\<close> on an array of strings.\<close>

fun join :: "string \<Rightarrow> string list \<Rightarrow> string" where
  "join sep [] = []"
| "join sep [x] = x"
| "join sep (x # y # ys) = x @ sep @ join sep (y # ys)"

text \<open>
  String conversion as a template literal performs it. Inside an array,
  \<^verbatim>\<open>null\<close> and \<^verbatim>\<open>undefined\<close> print as the empty string.
\<close>

fun to_string :: "js_value \<Rightarrow> string"
  and elem_to_string :: "js_value \<Rightarrow> string" where
  "to_string JUndefined = ''undefined''"
| "to_string JNull = ''null''"
| "to_string (JBool b) = (if b then ''true'' else ''false'')"
| "to_string (JNum i) = string_of_int i"
| "to_string JNaN = ''NaN''"
| "to_string (JStr s) = s"
| "to_string (JArr xs) = join '','' (map elem_to_string xs)"
| "to_string (JObj ps) = ''[object Object]''"
| "to_string (JFun name) = ''function '' @ name @ ''() { [native code] }''"
| "elem_to_string JUndefined = []"
| "elem_to_string JNull = []"
| "elem_to_string (JBool b) = to_string (JBool b)"
| "elem_to_string (JNum i) = to_string (JNum i)"
| "elem_to_string JNaN = to_string JNaN"
| "elem_to_string (JStr s) = to_string (JStr s)"
| "elem_to_string (JArr xs) = to_string (JArr xs)"
| "elem_to_string (JObj ps) = to_string (JObj ps)"
| "elem_to_string (JFun name) = to_string (JFun name)"

text \<open>Truthiness, and the \<^verbatim>\<open>||\<close> operator built on it.\<close>

fun truthy :: "js_value \<Rightarrow> bool" where
  "truthy JUndefined = False"
| "truthy JNull = False"
| "truthy (JBool b) = b"
| "truthy (JNum i) = (i \<noteq> 0)"
| "truthy JNaN = False"
| "truthy (JStr s) = (s \<noteq> [])"
| "truthy (JArr xs) = True"
| "truthy (JObj ps) = True"
| "truthy (JFun name) = True"

definition js_or :: "js_value \<Rightarrow> js_value \<Rightarrow> js_value" where
  "js_or a b = (if truthy a then a else b)"

text \<open>
  The members every plain object inherits from \<^verbatim>\<open>Object.prototype\<close>: built-in
  functions, and the accessor \<^verbatim>\<open>__proto__\<close>, which reads as the prototype itself, an
  object without enumerable properties.
\<close>

definition Object_prototype :: js_object where
  "Object_prototype =
     [(''constructor'', JFun ''Object''),
      (''__defineGetter__'', JFun ''__defineGetter__''),
      (''__defineSetter__'', JFun ''__defineSetter__''),
      (''hasOwnProperty'', JFun ''hasOwnProperty''),
      (''__lookupGetter__'', JFun ''__lookupGetter__''),
      (''__lookupSetter__'', JFun ''__lookupSetter__''),
      (''isPrototypeOf'', JFun ''isPrototypeOf''),
      (''propertyIsEnumerable'', JFun ''propertyIsEnumerable''),
      (''toString'', JFun ''toString''),
      (''valueOf'', JFun ''valueOf''),
      (''__proto__'', JObj []),
      (''toLocaleString'', JFun ''toLocaleString'')]"

text \<open>
  Property read \<^verbatim>\<open>obj[key]\<close> on a plain object: the object's own property if it has
  one, else the inherited member of that name, else \<^verbatim>\<open>undefined\<close>.
\<close>

definition js_get :: "js_object \<Rightarrow> string \<Rightarrow> js_value" where
  "js_get obj k =
     (case map_of obj k of
        Some v \<Rightarrow> v
      | None \<Rightarrow> (case map_of Object_prototype k of Some v \<Rightarrow> v | None \<Rightarrow> JUndefined))"

text \<open>\<^verbatim>\<open>Array.prototype.map\<close> with the callback's index argument.\<close>

fun map_idx :: "('a \<Rightarrow> nat \<Rightarrow> 'b) \<Rightarrow> nat \<Rightarrow> 'a list \<Rightarrow> 'b list" where
  "map_idx f idx [] = []"
| "map_idx f idx (x # xs) = f x idx # map_idx f (Suc idx) xs"

section \<open>Errors\<close>

datatype error =
    BadRequestError js_value
  | NotFoundError js_value

section \<open>helpers/sql.js: sqlForPartialUpdate\<close>

record partial_update =
  setCols :: string
  vals :: "js_value list"

definition Object_keys :: "js_object \<Rightarrow> string list" where
  "Object_keys obj = map fst obj"

definition Object_values :: "js_object \<Rightarrow> js_value list" where
  "Object_values obj = map snd obj"

text \<open>The interpolated expression \<^verbatim>\<open>jsToSql[colName] || colName\<close>, printed.\<close>

definition column_of :: "js_object \<Rightarrow> string \<Rightarrow> string" where
  "column_of jsToSql colName = to_string (js_or (js_get jsToSql colName) (JStr colName))"

definition col_fragment :: "js_object \<Rightarrow> string \<Rightarrow> nat \<Rightarrow> string" where
  "col_fragment jsToSql colName idx =
     [dq] @ column_of jsToSql colName @ [dq] @ ''=$'' @ string_of_nat (idx + 1)"

definition cols :: "js_object \<Rightarrow> js_object \<Rightarrow> string list" where
  "cols dataToUpdate jsToSql = map_idx (col_fragment jsToSql) 0 (Object_keys dataToUpdate)"

definition sqlForPartialUpdate :: "js_object \<Rightarrow> js_object \<Rightarrow> error + partial_update" where
  "sqlForPartialUpdate dataToUpdate jsToSql =
     (let keys = Object_keys dataToUpdate in
      if length keys = 0 then Inl (BadRequestError (JStr ''No data''))
      else Inr \<lparr> setCols = join '', '' (cols dataToUpdate jsToSql),
                 vals = Object_values dataToUpdate \<rparr>)"

text \<open>Reading a clause back: the number written after its last \<open>$\<close>, if it has one.\<close>

definition nat_of_string :: "string \<Rightarrow> nat" where
  "nat_of_string s = foldl (\<lambda>acc c. 10 * acc + digit_of_char c) 0 s"

definition placeholder_of :: "string \<Rightarrow> nat option" where
  "placeholder_of clause =
     (if CHR ''$'' \<in> set clause
      then Some (nat_of_string (rev (takeWhile (\<lambda>c. c \<noteq> CHR ''$'') (rev clause))))
      else None)"

section \<open>The database collaborator\<close>

text \<open>
  \<^verbatim>\<open>db.query(sql, params)\<close> is outside the repository: it is a parameter that maps
  a statement and its bound values to \<^verbatim>\<open>result.rows\<close>. The models below
  return, next to their result, the list of statements they sent, in order.
\<close>

type_synonym db = "string \<Rightarrow> js_value list \<Rightarrow> js_object list"

type_synonym db_call = "string \<times> js_value list"

text \<open>Property deletion and assignment on an object.\<close>

definition js_delete :: "js_object \<Rightarrow> string \<Rightarrow> js_object" where
  "js_delete obj k = filter (\<lambda>p. fst p \<noteq> k) obj"

fun js_set :: "js_object \<Rightarrow> string \<Rightarrow> js_value \<Rightarrow> js_object" where
  "js_set [] k v = [(k, v)]"
| "js_set (p # ps) k v = (if fst p = k then (k, v) # ps else p # js_set ps k v)"

section \<open>models/job.js\<close>

subsection \<open>Job.update\<close>

definition Job_update_sql :: "string \<Rightarrow> string \<Rightarrow> string" where
  "Job_update_sql setCols_text jobIdIndex =
     ''UPDATE jobs '' @ [nl] @
     ''                      SET '' @ setCols_text @ '' '' @ [nl] @
     ''                      WHERE id = '' @ jobIdIndex @ '' '' @ [nl] @
     ''                      RETURNING id, '' @ [nl] @
     ''                                title, '' @ [nl] @
     ''                                salary, '' @ [nl] @
     ''                                equity,'' @ [nl] @
     ''                                company_handle AS '' @ [dq] @ ''companyHandle'' @ [dq]"

definition Job_update :: "db \<Rightarrow> js_value \<Rightarrow> js_object \<Rightarrow> (error + js_object) \<times> db_call list" where
  "Job_update db jid data =
     (case sqlForPartialUpdate data [] of
        Inl e \<Rightarrow> (Inl e, [])
      | Inr r \<Rightarrow>
          (let jobIdIndex = ''$'' @ string_of_nat (length (vals r) + 1);
               sqlQuery = Job_update_sql (setCols r) jobIdIndex;
               params = vals r @ [jid]
           in case db sqlQuery params of
                [] \<Rightarrow> (Inl (NotFoundError (JStr (''No job: '' @ to_string jid))), [(sqlQuery, params)])
              | job # _ \<Rightarrow> (Inr job, [(sqlQuery, params)])))"

subsection \<open>Job.findAll\<close>

text \<open>
  The destructured argument \<^verbatim>\<open>{ minSalary, hasEquity, title } = {}\<close>: a field that
  is not supplied is \<open>JUndefined\<close>.
\<close>

record job_criteria =
  minSalary :: js_value
  hasEquity :: js_value
  title :: js_value

definition no_criteria :: job_criteria where
  "no_criteria = \<lparr> minSalary = JUndefined, hasEquity = JUndefined, title = JUndefined \<rparr>"

record where_state =
  queryWhereClauses :: "string list"
  queryParameters :: "js_value list"

definition base_query :: string where
  "base_query =
     ''SELECT j.id,'' @ [nl] @
     ''                        j.title,'' @ [nl] @
     ''                        j.salary,'' @ [nl] @
     ''                        j.equity,'' @ [nl] @
     ''                        j.company_handle AS '' @ [dq] @ ''companyHandle'' @ [dq] @ '','' @ [nl] @
     ''                        c.name AS '' @ [dq] @ ''companyName'' @ [dq] @ [nl] @
     ''                 FROM jobs j '' @ [nl] @
     ''                   LEFT JOIN companies AS c ON c.handle = j.company_handle''"

definition where_init :: where_state where
  "where_init = \<lparr> queryWhereClauses = [], queryParameters = [] \<rparr>"

definition where_minSalary :: "job_criteria \<Rightarrow> where_state \<Rightarrow> where_state" where
  "where_minSalary c s =
     (if minSalary c \<noteq> JUndefined then
        (let ps = queryParameters s @ [minSalary c] in
         \<lparr> queryWhereClauses = queryWhereClauses s @ [''salary >= $'' @ string_of_nat (length ps)],
           queryParameters = ps \<rparr>)
      else s)"

definition where_hasEquity :: "job_criteria \<Rightarrow> where_state \<Rightarrow> where_state" where
  "where_hasEquity c s =
     (if hasEquity c = JBool True then
        s\<lparr> queryWhereClauses := queryWhereClauses s @ [''equity > 0''] \<rparr>
      else s)"

definition where_title :: "job_criteria \<Rightarrow> where_state \<Rightarrow> where_state" where
  "where_title c s =
     (if title c \<noteq> JUndefined then
        (let ps = queryParameters s @ [JStr (''%'' @ to_string (title c) @ ''%'')] in
         \<lparr> queryWhereClauses = queryWhereClauses s @ [''title ILIKE $'' @ string_of_nat (length ps)],
           queryParameters = ps \<rparr>)
      else s)"

definition findAll_where :: "job_criteria \<Rightarrow> where_state" where
  "findAll_where c = where_title c (where_hasEquity c (where_minSalary c where_init))"

definition findAll_query :: "job_criteria \<Rightarrow> string" where
  "findAll_query c =
     (let s = findAll_where c;
          query = base_query;
          query = (if length (queryWhereClauses s) > 0
                   then query @ '' WHERE '' @ join '' AND '' (queryWhereClauses s)
                   else query)
      in query @ '' ORDER BY title'')"

definition Job_findAll :: "db \<Rightarrow> job_criteria \<Rightarrow> js_object list \<times> db_call list" where
  "Job_findAll db c =
     (let query = findAll_query c;
          queryParameters = queryParameters (findAll_where c)
      in (db query queryParameters, [(query, queryParameters)]))"

subsection \<open>Job.get\<close>

definition get_job_sql :: string where
  "get_job_sql =
     ''SELECT id,'' @ [nl] @
     ''                  title,'' @ [nl] @
     ''                  salary,'' @ [nl] @
     ''                  equity,'' @ [nl] @
     ''                  company_handle AS '' @ [dq] @ ''companyHandle'' @ [dq] @ [nl] @
     ''           FROM jobs'' @ [nl] @
     ''           WHERE id = $1''"

definition get_company_sql :: string where
  "get_company_sql =
     ''SELECT handle,'' @ [nl] @
     ''                  name,'' @ [nl] @
     ''                  description,'' @ [nl] @
     ''                  num_employees AS '' @ [dq] @ ''numEmployees'' @ [dq] @ '','' @ [nl] @
     ''                  logo_url AS '' @ [dq] @ ''logoUrl'' @ [dq] @ [nl] @
     ''           FROM companies'' @ [nl] @
     ''           WHERE handle = $1''"

text \<open>\<^verbatim>\<open>rows[0]\<close>: \<^verbatim>\<open>undefined\<close> on an empty result.\<close>

definition first_row :: "js_object list \<Rightarrow> js_value" where
  "first_row rows = (case rows of [] \<Rightarrow> JUndefined | r # _ \<Rightarrow> JObj r)"

text \<open>
  A row is an object, hence truthy: \<^verbatim>\<open>!job\<close> holds exactly on an empty result,
  which is the first branch of the case below.
\<close>

definition Job_get :: "db \<Rightarrow> js_value \<Rightarrow> (error + js_object) \<times> db_call list" where
  "Job_get db jid =
     (let jobResults = db get_job_sql [jid] in
      case jobResults of
        [] \<Rightarrow> (Inl (NotFoundError (JStr (''No job: '' @ to_string jid))), [(get_job_sql, [jid])])
      | job # _ \<Rightarrow>
          (let sent = [(get_job_sql, [jid])];
               companyResults = db get_company_sql [js_get job ''companyHandle''];
               sent = sent @ [(get_company_sql, [js_get job ''companyHandle''])];
               job = js_delete job ''companyHandle'';
               job = js_set job ''company'' (first_row companyResults)
           in (Inr job, sent)))"

section \<open>routes/companies.js: GET /\<close>

text \<open>
  The handler uses three things that are not in the repository's sources: the unary
  \<^verbatim>\<open>+\<close> of the language, \<^verbatim>\<open>jsonschema.validate\<close> against
  \<^verbatim>\<open>schemas/companySearch.json\<close>, and \<^verbatim>\<open>Company.findAll\<close>. Each is a
  parameter. The second component of the result lists the arguments with which
  \<^verbatim>\<open>Company.findAll\<close> was called. \<open>validator_result\<close> holds the two properties
  of the validation's result that the handler reads.
\<close>

record validator_result =
  valid :: bool
  errors :: "js_object list"

definition coerce_bounds :: "(js_value \<Rightarrow> js_value) \<Rightarrow> js_object \<Rightarrow> js_object" where
  "coerce_bounds to_number query =
     (let q = query;
          q = (if js_get q ''minEmployees'' \<noteq> JUndefined
               then js_set q ''minEmployees'' (to_number (js_get q ''minEmployees'')) else q);
          q = (if js_get q ''maxEmployees'' \<noteq> JUndefined
               then js_set q ''maxEmployees'' (to_number (js_get q ''maxEmployees'')) else q)
      in q)"

definition companies_get ::
  "(js_value \<Rightarrow> js_value) \<Rightarrow> (js_object \<Rightarrow> validator_result) \<Rightarrow>
   (js_object \<Rightarrow> error + js_object list) \<Rightarrow> js_object \<Rightarrow> (error + js_value) \<times> js_object list" where
  "companies_get to_number validate findAll query =
     (let q = coerce_bounds to_number query;
          validator = validate q
      in if \<not> valid validator then
           (Inl (BadRequestError (JArr (map (\<lambda>e. js_get e ''stack'') (errors validator)))), [])
         else
           (case findAll q of
              Inl err \<Rightarrow> (Inl err, [q])
            | Inr companies \<Rightarrow> (Inr (JObj [(''companies'', JArr (map JObj companies))]), [q])))"

text \<open>
  Modelled from the spec: the validation that runs before the filter builder. The
  schema \<^verbatim>\<open>schemas/companySearch.json\<close> that the handler validates against is not
  among the sources. The spec requires two things of it: a criterion that is not one
  of the recognized ones (\<open>minEmployees\<close>, \<open>maxEmployees\<close>, \<open>nameLike\<close>) is
  rejected, and if both a lower and an upper bound are present and lower > upper the
  request is rejected with the domain error \<open>InvalidRange\<close>. An error is an object
  whose \<^verbatim>\<open>stack\<close> property holds its text, which is all the handler reads.
\<close>

definition companySearch_validate :: "js_object \<Rightarrow> validator_result" where
  "companySearch_validate q =
     (let unrecognized =
            filter (\<lambda>k. k \<notin> set [''minEmployees'', ''maxEmployees'', ''nameLike'']) (Object_keys q);
          inverted =
            (case (js_get q ''minEmployees'', js_get q ''maxEmployees'') of
               (JNum lower, JNum upper) \<Rightarrow> lower > upper
             | _ \<Rightarrow> False);
          errs = map (\<lambda>k. [(''stack'', JStr (''unrecognized criterion '' @ k))]) unrecognized
                 @ (if inverted then [[(''stack'', JStr ''InvalidRange'')]] else [])
      in \<lparr> valid = (errs = []), errors = errs \<rparr>)"

text \<open>
  The unary \<^verbatim>\<open>+\<close> on strings of decimal digits, which is what a numeric field of a
  query string holds, and on the values that are not strings. A string with a sign,
  blanks, a fraction or an exponent, and an array or object, are sent to \<open>JNaN\<close>
  here although JavaScript may read a number from them: such numbers are outside
  \<open>js_value\<close>. The handler takes the coercion as a parameter, so what is proved
  about it does not depend on this function.
\<close>

definition decimal_to_number :: "js_value \<Rightarrow> js_value" where
  "decimal_to_number v =
     (case v of
        JUndefined \<Rightarrow> JNaN
      | JNull \<Rightarrow> JNum 0
      | JBool b \<Rightarrow> JNum (if b then 1 else 0)
      | JNum i \<Rightarrow> JNum i
      | JNaN \<Rightarrow> JNaN
      | JStr s \<Rightarrow> (if s = [] then JNum 0
                   else if list_all (\<lambda>c. c \<in> set ''0123456789'') s
                   then JNum (int (nat_of_string s)) else JNaN)
      | JArr xs \<Rightarrow> JNaN
      | JObj ps \<Rightarrow> JNaN
      | JFun name \<Rightarrow> JNaN)"

section \<open>Facts about the auxiliary functions\<close>

lemma length_map_idx: "length (map_idx f k xs) = length xs"
  by (induction xs arbitrary: k) simp_all

lemma map_idx_nth: "i < length xs \<Longrightarrow> map_idx f k xs ! i = f (xs ! i) (k + i)"
proof (induction xs arbitrary: k i)
  case Nil
  then show ?case by simp
next
  case (Cons x xs)
  then show ?case by (cases i) simp_all
qed

lemma digit_cases: "d < 10 \<Longrightarrow> d \<in> {0, 1, 2, 3, 4, 5, 6, 7, 8, 9::nat}"
  by auto

lemma digit_of_digit_char: "d < 10 \<Longrightarrow> digit_of_char (digit_char d) = d"
  using digit_cases [of d] by (auto simp: digit_of_char_def digit_char_def)

lemma nat_of_string_snoc: "nat_of_string (s @ [c]) = 10 * nat_of_string s + digit_of_char c"
  by (simp add: nat_of_string_def)

lemma nat_of_string_of_nat: "nat_of_string (string_of_nat n) = n"
proof (induction n rule: string_of_nat.induct)
  case (1 n)
  show ?case
  proof (cases "n < 10")
    case True
    then show ?thesis
      by (simp add: string_of_nat.simps [of n] nat_of_string_def digit_of_digit_char)
  next
    case False
    then show ?thesis
      using "1.IH" by (simp add: string_of_nat.simps [of n] nat_of_string_snoc digit_of_digit_char)
  qed
qed

lemma digit_char_not_dollar: "d < 10 \<Longrightarrow> digit_char d \<noteq> CHR ''$''"
  using digit_cases [of d] by (auto simp: digit_char_def)

lemma string_of_nat_no_dollar: "CHR ''$'' \<notin> set (string_of_nat n)"
proof (induction n rule: string_of_nat.induct)
  case (1 n)
  show ?case
  proof (cases "n < 10")
    case True
    then show ?thesis
      using digit_char_not_dollar [of n] by (simp add: string_of_nat.simps [of n])
  next
    case False
    then show ?thesis
      using "1.IH" digit_char_not_dollar [of "n mod 10"] by (simp add: string_of_nat.simps [of n])
  qed
qed

lemma placeholder_of_dollar: "placeholder_of (pre @ ''$'' @ string_of_nat n) = Some n"
proof -
  have "takeWhile (\<lambda>c. c \<noteq> CHR ''$'') (rev (string_of_nat n) @ CHR ''$'' # rev pre) = rev (string_of_nat n)"
    using string_of_nat_no_dollar [of n] by (intro takeWhile_tail [THEN trans]) auto
  then show ?thesis
    by (simp add: placeholder_of_def nat_of_string_of_nat)
qed

lemma length_cols: "length (cols dataToUpdate jsToSql) = length dataToUpdate"
  by (simp add: cols_def Object_keys_def length_map_idx)

lemma cols_nth:
  "i < length dataToUpdate \<Longrightarrow>
   cols dataToUpdate jsToSql ! i =
     [dq] @ column_of jsToSql (fst (dataToUpdate ! i)) @ [dq] @ ''=$'' @ string_of_nat (i + 1)"
  by (simp add: cols_def Object_keys_def map_idx_nth col_fragment_def)

lemma placeholder_of_col: 
  "i < length dataToUpdate \<Longrightarrow> placeholder_of (cols dataToUpdate jsToSql ! i) = Some (i + 1)"
  using placeholder_of_dollar [of "[dq] @ column_of jsToSql (fst (dataToUpdate ! i)) @ [dq] @ ''=''" "i + 1"]
  by (simp add: cols_nth)

lemma sqlForPartialUpdate_nonempty:
  "dataToUpdate \<noteq> [] \<Longrightarrow>
   sqlForPartialUpdate dataToUpdate jsToSql =
     Inr \<lparr> setCols = join '', '' (cols dataToUpdate jsToSql), vals = map snd dataToUpdate \<rparr>"
  by (simp add: sqlForPartialUpdate_def Object_keys_def Object_values_def)

section \<open>The partial-update builder\<close>

text \<open>
  C1. For a payload with at least one entry, whatever the field map,
  \<open>sqlForPartialUpdate\<close> returns a result whose \<open>setCols\<close> is the fragments joined
  with a comma and a space, with as many fragments and values as the payload has
  entries. The fragment at position \<open>i\<close> (from 0) is the quoted column of the
  \<open>i\<close>-th key followed by \<open>=$\<close> and the number \<open>i + 1\<close>, and the value at position
  \<open>i\<close> is the \<open>i\<close>-th entry's value. Exchanging two entries of the payload
  exchanges the two values and the columns of the two fragments in the same way
  (the numbers stay with the positions), and leaves every other fragment as it was.
\<close>

theorem sqlForPartialUpdate_order:
  assumes "dataToUpdate \<noteq> []"
  shows "\<exists>r. sqlForPartialUpdate dataToUpdate jsToSql = Inr r
           \<and> setCols r = join '', '' (cols dataToUpdate jsToSql)
           \<and> length (cols dataToUpdate jsToSql) = length dataToUpdate
           \<and> length (vals r) = length dataToUpdate
           \<and> (\<forall>i < length dataToUpdate.
                 cols dataToUpdate jsToSql ! i =
                   [dq] @ column_of jsToSql (fst (dataToUpdate ! i)) @ [dq] @ ''=$'' @ string_of_nat (i + 1)
                 \<and> vals r ! i = snd (dataToUpdate ! i))
           \<and> (\<forall>i < length dataToUpdate. \<forall>j < length dataToUpdate.
                 \<exists>r'. sqlForPartialUpdate (dataToUpdate[i := dataToUpdate ! j, j := dataToUpdate ! i]) jsToSql = Inr r'
                   \<and> vals r' = (vals r)[i := vals r ! j, j := vals r ! i]
                   \<and> cols (dataToUpdate[i := dataToUpdate ! j, j := dataToUpdate ! i]) jsToSql ! i =
                       [dq] @ column_of jsToSql (fst (dataToUpdate ! j)) @ [dq] @ ''=$'' @ string_of_nat (i + 1)
                   \<and> cols (dataToUpdate[i := dataToUpdate ! j, j := dataToUpdate ! i]) jsToSql ! j =
                       [dq] @ column_of jsToSql (fst (dataToUpdate ! i)) @ [dq] @ ''=$'' @ string_of_nat (j + 1)
                   \<and> (\<forall>k < length dataToUpdate. k \<noteq> i \<longrightarrow> k \<noteq> j \<longrightarrow>
                         cols (dataToUpdate[i := dataToUpdate ! j, j := dataToUpdate ! i]) jsToSql ! k =
                           cols dataToUpdate jsToSql ! k))"
proof -
  let ?r = "\<lparr> setCols = join '', '' (cols dataToUpdate jsToSql), vals = map snd dataToUpdate \<rparr>"
  have res: "sqlForPartialUpdate dataToUpdate jsToSql = Inr ?r"
    using assms by (rule sqlForPartialUpdate_nonempty)
  have frag: "\<forall>i < length dataToUpdate.
                 cols dataToUpdate jsToSql ! i =
                   [dq] @ column_of jsToSql (fst (dataToUpdate ! i)) @ [dq] @ ''=$'' @ string_of_nat (i + 1)
                 \<and> vals ?r ! i = snd (dataToUpdate ! i)"
    by (simp add: cols_nth)
  have swap: "\<exists>r'. sqlForPartialUpdate (dataToUpdate[i := dataToUpdate ! j, j := dataToUpdate ! i]) jsToSql = Inr r'
                   \<and> vals r' = (vals ?r)[i := vals ?r ! j, j := vals ?r ! i]
                   \<and> cols (dataToUpdate[i := dataToUpdate ! j, j := dataToUpdate ! i]) jsToSql ! i =
                       [dq] @ column_of jsToSql (fst (dataToUpdate ! j)) @ [dq] @ ''=$'' @ string_of_nat (i + 1)
                   \<and> cols (dataToUpdate[i := dataToUpdate ! j, j := dataToUpdate ! i]) jsToSql ! j =
                       [dq] @ column_of jsToSql (fst (dataToUpdate ! i)) @ [dq] @ ''=$'' @ string_of_nat (j + 1)
                   \<and> (\<forall>k < length dataToUpdate. k \<noteq> i \<longrightarrow> k \<noteq> j \<longrightarrow>
                         cols (dataToUpdate[i := dataToUpdate ! j, j := dataToUpdate ! i]) jsToSql ! k =
                           cols dataToUpdate jsToSql ! k)"
    if ij: "i < length dataToUpdate" "j < length dataToUpdate" for i j
  proof -
    let ?d = "dataToUpdate[i := dataToUpdate ! j, j := dataToUpdate ! i]"
    have ne: "?d \<noteq> []" using assms by simp
    have len: "length ?d = length dataToUpdate" by simp
    have di: "?d ! i = dataToUpdate ! j"
      using ij by (cases "i = j") (simp_all add: nth_list_update)
    have dj: "?d ! j = dataToUpdate ! i"
      using ij by simp
    have dk: "?d ! k = dataToUpdate ! k" if "k \<noteq> i" "k \<noteq> j" for k
      using that by simp
    have v: "map snd ?d = (map snd dataToUpdate)[i := map snd dataToUpdate ! j, j := map snd dataToUpdate ! i]"
      using ij by (simp add: map_update)
    have ci: "cols ?d jsToSql ! i =
                [dq] @ column_of jsToSql (fst (dataToUpdate ! j)) @ [dq] @ ''=$'' @ string_of_nat (i + 1)"
      using cols_nth [of i ?d jsToSql] ij di by simp
    have cj: "cols ?d jsToSql ! j =
                [dq] @ column_of jsToSql (fst (dataToUpdate ! i)) @ [dq] @ ''=$'' @ string_of_nat (j + 1)"
      using cols_nth [of j ?d jsToSql] ij dj by simp
    have ck: "\<forall>k < length dataToUpdate. k \<noteq> i \<longrightarrow> k \<noteq> j \<longrightarrow> cols ?d jsToSql ! k = cols dataToUpdate jsToSql ! k"
      using cols_nth [of _ ?d jsToSql] cols_nth [of _ dataToUpdate jsToSql] by simp
    show ?thesis
      using sqlForPartialUpdate_nonempty [OF ne, of jsToSql] v ci cj ck by simp
  qed
  show ?thesis
    using res frag swap by (simp add: length_cols)
qed

theorem sqlForPartialUpdate_order_witness:
  "[(''firstName'', JStr ''FirstnameTest''), (''age'', JNum 50)] \<noteq> []
   \<and> (\<exists>r. sqlForPartialUpdate [(''firstName'', JStr ''FirstnameTest''), (''age'', JNum 50)]
              [(''firstName'', JStr ''first_name''), (''age'', JStr ''age'')] = Inr r
          \<and> setCols r = [dq] @ ''first_name'' @ [dq] @ ''=$1, '' @ [dq] @ ''age'' @ [dq] @ ''=$2''
          \<and> vals r = [JStr ''FirstnameTest'', JNum 50])
   \<and> (\<exists>r. sqlForPartialUpdate [(''age'', JNum 50), (''firstName'', JStr ''FirstnameTest'')]
              [(''firstName'', JStr ''first_name''), (''age'', JStr ''age'')] = Inr r
          \<and> setCols r = [dq] @ ''age'' @ [dq] @ ''=$1, '' @ [dq] @ ''first_name'' @ [dq] @ ''=$2''
          \<and> vals r = [JNum 50, JStr ''FirstnameTest''])"
  using sqlForPartialUpdate_order
          [of "[(''firstName'', JStr ''FirstnameTest''), (''age'', JNum 50)]"
              "[(''firstName'', JStr ''first_name''), (''age'', JStr ''age'')]"]
  by (simp add: sqlForPartialUpdate_def cols_def Object_keys_def Object_values_def col_fragment_def
        column_of_def js_or_def js_get_def Object_prototype_def string_of_nat.simps digit_char_def)

lemma map_placeholder_cols:
  "map placeholder_of (cols dataToUpdate jsToSql) = map Some [1..<length dataToUpdate + 1]"
proof (rule nth_equalityI)
  show "length (map placeholder_of (cols dataToUpdate jsToSql)) = length (map Some [1..<length dataToUpdate + 1])"
    by (simp add: length_cols del: upt_Suc)
next
  fix i assume "i < length (map placeholder_of (cols dataToUpdate jsToSql))"
  then have i: "i < length dataToUpdate" by (simp add: length_cols)
  then show "map placeholder_of (cols dataToUpdate jsToSql) ! i = map Some [1..<length dataToUpdate + 1] ! i"
    using placeholder_of_col [OF i, of jsToSql] by (simp add: length_cols nth_upt del: upt_Suc)
qed

text \<open>
  C2. For a payload with at least one entry, the numbers read back from the fragments
  are 1, 2, ..., n in this order, where n is the length of the returned value list,
  so the next free index is \<open>length values + 1\<close>. \<open>Job.update\<close>, which calls the
  builder with an empty field map, sends one statement: \<open>UPDATE jobs\<close>, then \<open>SET\<close>
  followed by the builder's clause, then \<open>WHERE id = $\<close> followed by that next
  index, then the \<open>RETURNING\<close> list. Its parameter list is the returned values
  followed by the row id, so the id sits at position \<open>length values + 1\<close> (counting
  from 1) and the values before it are untouched.
\<close>

theorem placeholders_contiguous:
  assumes "data \<noteq> []"
  shows "(\<exists>r. sqlForPartialUpdate data jsToSql = Inr r
            \<and> setCols r = join '', '' (cols data jsToSql)
            \<and> length (cols data jsToSql) = length (vals r)
            \<and> map placeholder_of (cols data jsToSql) = map Some [1..<length (vals r) + 1])
         \<and> (\<exists>r. sqlForPartialUpdate data [] = Inr r
            \<and> snd (Job_update db jid data) =
                [(''UPDATE jobs '' @ [nl] @
                  ''                      SET '' @ setCols r @ '' '' @ [nl] @
                  ''                      WHERE id = $'' @ string_of_nat (length (vals r) + 1) @ '' '' @ [nl] @
                  ''                      RETURNING id, '' @ [nl] @
                  ''                                title, '' @ [nl] @
                  ''                                salary, '' @ [nl] @
                  ''                                equity,'' @ [nl] @
                  ''                                company_handle AS '' @ [dq] @ ''companyHandle'' @ [dq],
                  vals r @ [jid])]
            \<and> placeholder_of (''WHERE id = $'' @ string_of_nat (length (vals r) + 1)) = Some (length (vals r) + 1)
            \<and> take (length (vals r)) (vals r @ [jid]) = vals r
            \<and> (vals r @ [jid]) ! (length (vals r) + 1 - 1) = jid)"
proof
  show "\<exists>r. sqlForPartialUpdate data jsToSql = Inr r
           \<and> setCols r = join '', '' (cols data jsToSql)
           \<and> length (cols data jsToSql) = length (vals r)
           \<and> map placeholder_of (cols data jsToSql) = map Some [1..<length (vals r) + 1]"
    using sqlForPartialUpdate_nonempty [OF assms, of jsToSql] map_placeholder_cols [of data jsToSql]
    by (simp add: length_cols)
next
  have "snd (Job_update db jid data) =
          [(Job_update_sql (join '', '' (cols data [])) (''$'' @ string_of_nat (length data + 1)),
            map snd data @ [jid])]"
    using sqlForPartialUpdate_nonempty [OF assms, of "[]"]
    by (simp add: Job_update_def Let_def split: list.split)
  then show "\<exists>r. sqlForPartialUpdate data [] = Inr r
            \<and> snd (Job_update db jid data) =
                [(''UPDATE jobs '' @ [nl] @
                  ''                      SET '' @ setCols r @ '' '' @ [nl] @
                  ''                      WHERE id = $'' @ string_of_nat (length (vals r) + 1) @ '' '' @ [nl] @
                  ''                      RETURNING id, '' @ [nl] @
                  ''                                title, '' @ [nl] @
                  ''                                salary, '' @ [nl] @
                  ''                                equity,'' @ [nl] @
                  ''                                company_handle AS '' @ [dq] @ ''companyHandle'' @ [dq],
                  vals r @ [jid])]
            \<and> placeholder_of (''WHERE id = $'' @ string_of_nat (length (vals r) + 1)) = Some (length (vals r) + 1)
            \<and> take (length (vals r)) (vals r @ [jid]) = vals r
            \<and> (vals r @ [jid]) ! (length (vals r) + 1 - 1) = jid"
    using sqlForPartialUpdate_nonempty [OF assms, of "[]"]
      placeholder_of_dollar [of "''WHERE id = ''" "length data + 1"]
    by (simp add: Job_update_sql_def)
qed

theorem placeholders_contiguous_witness:
  "[(''title'', JStr ''New''), (''salary'', JNum 500)] \<noteq> []
   \<and> map placeholder_of (cols [(''title'', JStr ''New''), (''salary'', JNum 500)] []) = [Some 1, Some 2]
   \<and> snd (Job_update (\<lambda>sql params. []) (JNum 7) [(''title'', JStr ''New''), (''salary'', JNum 500)]) =
        [(''UPDATE jobs '' @ [nl] @
                  ''                      SET '' @ [dq] @ ''title'' @ [dq] @ ''=$1, '' @ [dq] @ ''salary'' @ [dq] @ ''=$2'' @ '' '' @ [nl] @
                  ''                      WHERE id = $'' @ ''3'' @ '' '' @ [nl] @
                  ''                      RETURNING id, '' @ [nl] @
                  ''                                title, '' @ [nl] @
                  ''                                salary, '' @ [nl] @
                  ''                                equity,'' @ [nl] @
                  ''                                company_handle AS '' @ [dq] @ ''companyHandle'' @ [dq],
          [JStr ''New'', JNum 500, JNum 7])]"
  using placeholders_contiguous
          [of "[(''title'', JStr ''New''), (''salary'', JNum 500)]" "[]" "\<lambda>sql params. []" "JNum 7"]
  by (simp add: sqlForPartialUpdate_def cols_def Object_keys_def Object_values_def col_fragment_def
        column_of_def js_or_def js_get_def Object_prototype_def string_of_nat.simps digit_char_def)

text \<open>
  C3. Whatever the field map, the builder fails with the bad-request error whose
  message is \<open>No data\<close> exactly when the payload has no entry; it fails in no other
  way, and it returns a clause and value list exactly when the payload has an entry.
\<close>

theorem sqlForPartialUpdate_no_data:
  "(sqlForPartialUpdate dataToUpdate jsToSql = Inl (BadRequestError (JStr ''No data''))) = (dataToUpdate = [])
   \<and> (\<exists>e. sqlForPartialUpdate dataToUpdate jsToSql = Inl e) = (dataToUpdate = [])
   \<and> (\<exists>r. sqlForPartialUpdate dataToUpdate jsToSql = Inr r) = (dataToUpdate \<noteq> [])"
  by (simp add: sqlForPartialUpdate_def Object_keys_def)

theorem sqlForPartialUpdate_no_data_witness:
  "sqlForPartialUpdate [] [(''firstName'', JStr ''first_name'')] = Inl (BadRequestError (JStr ''No data''))
   \<and> (\<exists>r. sqlForPartialUpdate [(''firstName'', JStr ''FirstnameTest'')] [(''firstName'', JStr ''first_name'')] = Inr r)"
  using sqlForPartialUpdate_no_data [of "[]" "[(''firstName'', JStr ''first_name'')]"]
        sqlForPartialUpdate_no_data [of "[(''firstName'', JStr ''FirstnameTest'')]" "[(''firstName'', JStr ''first_name'')]"]
  by simp

lemma inherited_member_is_printed:
  "cols [(''constructor'', JNum 1)] [] =
     [[dq] @ ''function Object() { [native code] }'' @ [dq] @ ''=$1'']"
  by (simp add: cols_def Object_keys_def col_fragment_def column_of_def js_or_def js_get_def
        Object_prototype_def string_of_nat.simps digit_char_def)

lemma js_get_no_entry:
  "map_of obj k = None \<Longrightarrow> map_of Object_prototype k = None \<Longrightarrow> js_get obj k = JUndefined"
  by (simp add: js_get_def)

text \<open>
  C10. The fallback to the key is taken whenever the value that the field map gives
  for the key is falsy, not only when there is none: if \<open>jsToSql[key]\<close> for the
  \<open>i\<close>-th key of the payload is \<open>undefined\<close> (nothing is found under the key),
  \<open>null\<close>, \<open>false\<close>, \<open>0\<close>, \<open>NaN\<close> or the empty string, the builder returns a result
  (no error) and the \<open>i\<close>-th fragment is the key itself between double quotes,
  followed by \<open>=$\<close> and \<open>i + 1\<close>. A key under which the field map finds an
  inherited member, such as \<open>constructor\<close>, has a truthy value and is not such a key.
\<close>

theorem column_fallback_on_falsy:
  assumes "i < length dataToUpdate"
    and "js_get jsToSql (fst (dataToUpdate ! i)) \<in> {JUndefined, JNull, JBool False, JNum 0, JNaN, JStr []}"
  shows "\<exists>r. sqlForPartialUpdate dataToUpdate jsToSql = Inr r
           \<and> setCols r = join '', '' (cols dataToUpdate jsToSql)
           \<and> cols dataToUpdate jsToSql ! i =
                [dq] @ fst (dataToUpdate ! i) @ [dq] @ ''=$'' @ string_of_nat (i + 1)"
proof -
  have ne: "dataToUpdate \<noteq> []" using assms(1) by auto
  have "\<not> truthy (js_get jsToSql (fst (dataToUpdate ! i)))"
    using assms(2) by auto
  then have "column_of jsToSql (fst (dataToUpdate ! i)) = fst (dataToUpdate ! i)"
    by (simp add: column_of_def js_or_def)
  then show ?thesis
    using sqlForPartialUpdate_nonempty [OF ne, of jsToSql] cols_nth [OF assms(1), of jsToSql] by simp
qed

theorem column_fallback_on_falsy_witness:
  "(0::nat) < length [(''age'', JNum 50)]
   \<and> js_get [(''age'', JStr [])] (fst ([(''age'', JNum 50)] ! 0)) = JStr []
   \<and> (\<exists>r. sqlForPartialUpdate [(''age'', JNum 50)] [(''age'', JStr [])] = Inr r
          \<and> setCols r = [dq] @ ''age'' @ [dq] @ ''=$1'')
   \<and> js_get [] (fst ([(''zzz'', JNum 1)] ! 0)) = JUndefined
   \<and> (\<exists>r. sqlForPartialUpdate [(''zzz'', JNum 1)] [] = Inr r
          \<and> setCols r = [dq] @ ''zzz'' @ [dq] @ ''=$1'')"
  using column_fallback_on_falsy [of 0 "[(''age'', JNum 50)]" "[(''age'', JStr [])]"]
        column_fallback_on_falsy [of 0 "[(''zzz'', JNum 1)]" "[]"]
  by (simp add: cols_def Object_keys_def col_fragment_def column_of_def js_or_def js_get_def
        Object_prototype_def string_of_nat.simps digit_char_def)

section \<open>The filtered job query\<close>


lemmas where_defs = findAll_where_def where_title_def where_hasEquity_def where_minSalary_def where_init_def

lemma string_of_nat_1: "string_of_nat (Suc 0) = ''1''"
  by (simp add: string_of_nat.simps digit_char_def)

lemma string_of_nat_2: "string_of_nat (Suc (Suc 0)) = ''2''"
  by (simp add: string_of_nat.simps digit_char_def)

lemma findAll_params:
  "queryParameters (findAll_where c) =
     (if minSalary c \<noteq> JUndefined then [minSalary c] else [])
     @ (if title c \<noteq> JUndefined then [JStr (''%'' @ to_string (title c) @ ''%'')] else [])"
  by (simp add: where_defs Let_def)

lemma findAll_clauses:
  "queryWhereClauses (findAll_where c) =
     (if minSalary c \<noteq> JUndefined then [''salary >= $1''] else [])
     @ (if hasEquity c = JBool True then [''equity > 0''] else [])
     @ (if title c \<noteq> JUndefined
        then [''title ILIKE $'' @ (if minSalary c \<noteq> JUndefined then ''2'' else ''1'')] else [])"
  by (simp add: where_defs Let_def string_of_nat_1 string_of_nat_2)

lemma findAll_query_eq:
  "findAll_query c =
     base_query
     @ (if queryWhereClauses (findAll_where c) = [] then []
        else '' WHERE '' @ join '' AND '' (queryWhereClauses (findAll_where c)))
     @ '' ORDER BY title''"
  by (simp add: findAll_query_def Let_def)

lemma Job_findAll_closed:
  "Job_findAll db c =
     (let clauses =
            (if minSalary c \<noteq> JUndefined then [''salary >= $1''] else [])
            @ (if hasEquity c = JBool True then [''equity > 0''] else [])
            @ (if title c \<noteq> JUndefined
               then [''title ILIKE $'' @ (if minSalary c \<noteq> JUndefined then ''2'' else ''1'')] else []);
          params =
            (if minSalary c \<noteq> JUndefined then [minSalary c] else [])
            @ (if title c \<noteq> JUndefined then [JStr (''%'' @ to_string (title c) @ ''%'')] else []);
          query =
            base_query
            @ (if clauses = [] then [] else '' WHERE '' @ join '' AND '' clauses)
            @ '' ORDER BY title''
      in (db query params, [(query, params)]))"
  by (simp add: Job_findAll_def Let_def findAll_query_eq findAll_clauses findAll_params)

text \<open>
  C4. The \<open>hasEquity\<close> flag never changes the bound values. The literal clause
  \<open>equity > 0\<close> occurs once among the clauses when the flag is exactly \<open>true\<close> and
  not at all otherwise; setting the flag to \<open>true\<close> adds that one clause and nothing
  else. For any other value of the flag (\<open>false\<close>, absent, or anything that is not
  the boolean \<open>true\<close>) the clauses, the values, the statement and the call to the
  database are those of the same criteria without the flag, so \<open>{hasEquity: false}\<close>
  and \<open>{}\<close> give the same output. What \<open>Job.findAll\<close> sends to the database is
  written out: with the flag \<open>true\<close>, the statement has \<open>equity > 0\<close> after the
  salary clause (if any) and before the title clause (if any), joined by \<open>AND\<close>;
  with any other flag it has only the salary and title clauses, or no \<open>WHERE\<close> at
  all; the bound values are the salary and the title pattern in both cases.
\<close>

theorem hasEquity_only_when_true:
  "queryParameters (findAll_where (c\<lparr>hasEquity := h\<rparr>)) = queryParameters (findAll_where c)
   \<and> count_list (queryWhereClauses (findAll_where c)) ''equity > 0'' = (if hasEquity c = JBool True then 1 else 0)
   \<and> length (queryWhereClauses (findAll_where (c\<lparr>hasEquity := JBool True\<rparr>))) =
       Suc (length (queryWhereClauses (findAll_where (c\<lparr>hasEquity := JUndefined\<rparr>))))
   \<and> remove1 ''equity > 0'' (queryWhereClauses (findAll_where (c\<lparr>hasEquity := JBool True\<rparr>))) =
       queryWhereClauses (findAll_where (c\<lparr>hasEquity := JUndefined\<rparr>))
   \<and> (h \<noteq> JBool True \<longrightarrow>
        findAll_where (c\<lparr>hasEquity := h\<rparr>) = findAll_where (c\<lparr>hasEquity := JUndefined\<rparr>)
        \<and> findAll_query (c\<lparr>hasEquity := h\<rparr>) = findAll_query (c\<lparr>hasEquity := JUndefined\<rparr>)
        \<and> Job_findAll db (c\<lparr>hasEquity := h\<rparr>) = Job_findAll db (c\<lparr>hasEquity := JUndefined\<rparr>))
   \<and> (let sal = (if minSalary c \<noteq> JUndefined then [''salary >= $1''] else []);
            tit = (if title c \<noteq> JUndefined
                   then [''title ILIKE $'' @ (if minSalary c \<noteq> JUndefined then ''2'' else ''1'')] else []);
            params = (if minSalary c \<noteq> JUndefined then [minSalary c] else [])
                     @ (if title c \<noteq> JUndefined then [JStr (''%'' @ to_string (title c) @ ''%'')] else []);
            with_equity = base_query @ '' WHERE '' @ join '' AND '' (sal @ [''equity > 0''] @ tit)
                          @ '' ORDER BY title'';
            without = base_query
                      @ (if sal @ tit = [] then [] else '' WHERE '' @ join '' AND '' (sal @ tit))
                      @ '' ORDER BY title''
        in Job_findAll db (c\<lparr>hasEquity := JBool True\<rparr>) = (db with_equity params, [(with_equity, params)])
           \<and> (h \<noteq> JBool True \<longrightarrow>
                Job_findAll db (c\<lparr>hasEquity := h\<rparr>) = (db without params, [(without, params)])))"
proof -
  have p: "queryParameters (findAll_where (c\<lparr>hasEquity := h\<rparr>)) = queryParameters (findAll_where c)"
    by (simp add: findAll_params)
  have n: "count_list (queryWhereClauses (findAll_where c)) ''equity > 0'' = (if hasEquity c = JBool True then 1 else 0)"
    by (simp add: findAll_clauses)
  have l: "length (queryWhereClauses (findAll_where (c\<lparr>hasEquity := JBool True\<rparr>))) =
       Suc (length (queryWhereClauses (findAll_where (c\<lparr>hasEquity := JUndefined\<rparr>))))"
    by (simp add: findAll_clauses)
  have r: "remove1 ''equity > 0'' (queryWhereClauses (findAll_where (c\<lparr>hasEquity := JBool True\<rparr>))) =
       queryWhereClauses (findAll_where (c\<lparr>hasEquity := JUndefined\<rparr>))"
    by (simp add: findAll_clauses)
  have w: "findAll_where (c\<lparr>hasEquity := h\<rparr>) = findAll_where (c\<lparr>hasEquity := JUndefined\<rparr>)" if "h \<noteq> JBool True"
    using that by (simp add: where_defs Let_def)
  have q: "findAll_query (c\<lparr>hasEquity := h\<rparr>) = findAll_query (c\<lparr>hasEquity := JUndefined\<rparr>)" if "h \<noteq> JBool True"
    using w [OF that] by (simp add: findAll_query_eq)
  have j: "Job_findAll db (c\<lparr>hasEquity := h\<rparr>) = Job_findAll db (c\<lparr>hasEquity := JUndefined\<rparr>)" if "h \<noteq> JBool True"
    using w [OF that] q [OF that] by (simp add: Job_findAll_def)
  have s: "(let sal = (if minSalary c \<noteq> JUndefined then [''salary >= $1''] else []);
            tit = (if title c \<noteq> JUndefined
                   then [''title ILIKE $'' @ (if minSalary c \<noteq> JUndefined then ''2'' else ''1'')] else []);
            params = (if minSalary c \<noteq> JUndefined then [minSalary c] else [])
                     @ (if title c \<noteq> JUndefined then [JStr (''%'' @ to_string (title c) @ ''%'')] else []);
            with_equity = base_query @ '' WHERE '' @ join '' AND '' (sal @ [''equity > 0''] @ tit)
                          @ '' ORDER BY title'';
            without = base_query
                      @ (if sal @ tit = [] then [] else '' WHERE '' @ join '' AND '' (sal @ tit))
                      @ '' ORDER BY title''
        in Job_findAll db (c\<lparr>hasEquity := JBool True\<rparr>) = (db with_equity params, [(with_equity, params)])
           \<and> (h \<noteq> JBool True \<longrightarrow>
                Job_findAll db (c\<lparr>hasEquity := h\<rparr>) = (db without params, [(without, params)])))"
    by (simp add: Job_findAll_closed Let_def)
  show ?thesis using p n l r w q j s by blast
qed

theorem hasEquity_only_when_true_witness:
  "JBool False \<noteq> JBool True
   \<and> Job_findAll (\<lambda>sql params. []) \<lparr> minSalary = JUndefined, hasEquity = JBool False, title = JUndefined \<rparr>
       = Job_findAll (\<lambda>sql params. []) no_criteria
   \<and> queryWhereClauses (findAll_where \<lparr> minSalary = JUndefined, hasEquity = JBool True, title = JUndefined \<rparr>)
       = [''equity > 0'']
   \<and> queryParameters (findAll_where \<lparr> minSalary = JUndefined, hasEquity = JBool True, title = JUndefined \<rparr>) = []
   \<and> snd (Job_findAll (\<lambda>sql params. []) (no_criteria\<lparr>hasEquity := JBool True\<rparr>)) =
       [(base_query @ '' WHERE equity > 0 ORDER BY title'', [])]
   \<and> snd (Job_findAll (\<lambda>sql params. []) (no_criteria\<lparr>hasEquity := JBool False\<rparr>)) =
       [(base_query @ '' ORDER BY title'', [])]"
  using hasEquity_only_when_true [where c = no_criteria and h = "JBool False" and db = "\<lambda>sql params. []"]
  by (simp add: no_criteria_def where_defs Job_findAll_def findAll_query_def Let_def)


lemma placeholder_salary_1: "placeholder_of ''salary >= $1'' = Some 1"
  by (simp add: placeholder_of_def nat_of_string_def digit_of_char_def)

lemma placeholder_title_1: "placeholder_of ''title ILIKE $1'' = Some 1"
  by (simp add: placeholder_of_def nat_of_string_def digit_of_char_def)

lemma placeholder_title_2: "placeholder_of ''title ILIKE $2'' = Some 2"
  by (simp add: placeholder_of_def nat_of_string_def digit_of_char_def)

lemma placeholder_equity: "placeholder_of ''equity > 0'' = None"
  by (simp add: placeholder_of_def)

text \<open>
  C5. Whatever fields are present, the clauses are the salary bound, the equity
  clause and the title match, in this order, each one there or not; the statement
  joins them with \<open>AND\<close> after \<open>WHERE\<close>. The number written in the salary clause
  and the number written in the title clause are the positions (from 1) of
  \<open>minSalary\<close> and of the title pattern in the final value list, also when the
  equity clause, which has no number and no value, stands between them. Every
  clause has either a number within the value list or is the equity clause.
  \<open>Job.findAll\<close> sends exactly this statement with exactly these values to the
  database, once, and returns the rows that come back.
\<close>

theorem findAll_fixed_order:
  "queryWhereClauses (findAll_where c) =
     (if minSalary c \<noteq> JUndefined then [''salary >= $1''] else [])
     @ (if hasEquity c = JBool True then [''equity > 0''] else [])
     @ (if title c \<noteq> JUndefined
        then [''title ILIKE $'' @ (if minSalary c \<noteq> JUndefined then ''2'' else ''1'')] else [])
   \<and> queryParameters (findAll_where c) =
       (if minSalary c \<noteq> JUndefined then [minSalary c] else [])
       @ (if title c \<noteq> JUndefined then [JStr (''%'' @ to_string (title c) @ ''%'')] else [])
   \<and> findAll_query c =
       base_query
       @ (if queryWhereClauses (findAll_where c) = [] then []
          else '' WHERE '' @ join '' AND '' (queryWhereClauses (findAll_where c)))
       @ '' ORDER BY title''
   \<and> (minSalary c \<noteq> JUndefined \<longrightarrow>
        (\<exists>k. ''salary >= $'' @ string_of_nat k \<in> set (queryWhereClauses (findAll_where c))
           \<and> placeholder_of (''salary >= $'' @ string_of_nat k) = Some k
           \<and> 0 < k \<and> k \<le> length (queryParameters (findAll_where c))
           \<and> queryParameters (findAll_where c) ! (k - 1) = minSalary c))
   \<and> (title c \<noteq> JUndefined \<longrightarrow>
        (\<exists>k. ''title ILIKE $'' @ string_of_nat k \<in> set (queryWhereClauses (findAll_where c))
           \<and> placeholder_of (''title ILIKE $'' @ string_of_nat k) = Some k
           \<and> 0 < k \<and> k \<le> length (queryParameters (findAll_where c))
           \<and> queryParameters (findAll_where c) ! (k - 1) = JStr (''%'' @ to_string (title c) @ ''%'')))
   \<and> (\<forall>cl \<in> set (queryWhereClauses (findAll_where c)).
        case placeholder_of cl of
          None \<Rightarrow> cl = ''equity > 0''
        | Some k \<Rightarrow> 0 < k \<and> k \<le> length (queryParameters (findAll_where c)))
   \<and> (let clauses =
              (if minSalary c \<noteq> JUndefined then [''salary >= $1''] else [])
              @ (if hasEquity c = JBool True then [''equity > 0''] else [])
              @ (if title c \<noteq> JUndefined
                 then [''title ILIKE $'' @ (if minSalary c \<noteq> JUndefined then ''2'' else ''1'')] else []);
            params =
              (if minSalary c \<noteq> JUndefined then [minSalary c] else [])
              @ (if title c \<noteq> JUndefined then [JStr (''%'' @ to_string (title c) @ ''%'')] else []);
            query =
              base_query
              @ (if clauses = [] then [] else '' WHERE '' @ join '' AND '' clauses)
              @ '' ORDER BY title''
        in Job_findAll db c = (db query params, [(query, params)]))"
proof -
  have sal: "\<exists>k. ''salary >= $'' @ string_of_nat k \<in> set (queryWhereClauses (findAll_where c))
           \<and> placeholder_of (''salary >= $'' @ string_of_nat k) = Some k
           \<and> 0 < k \<and> k \<le> length (queryParameters (findAll_where c))
           \<and> queryParameters (findAll_where c) ! (k - 1) = minSalary c"
    if "minSalary c \<noteq> JUndefined"
    using that
    by (intro exI [of _ "Suc 0"]) (simp add: findAll_clauses findAll_params string_of_nat_1 placeholder_salary_1)
  have tit: "\<exists>k. ''title ILIKE $'' @ string_of_nat k \<in> set (queryWhereClauses (findAll_where c))
           \<and> placeholder_of (''title ILIKE $'' @ string_of_nat k) = Some k
           \<and> 0 < k \<and> k \<le> length (queryParameters (findAll_where c))
           \<and> queryParameters (findAll_where c) ! (k - 1) = JStr (''%'' @ to_string (title c) @ ''%'')"
    if t: "title c \<noteq> JUndefined"
  proof (cases "minSalary c \<noteq> JUndefined")
    case True
    with t show ?thesis
      by (intro exI [of _ "Suc (Suc 0)"])
         (simp add: findAll_clauses findAll_params string_of_nat_2 placeholder_title_2)
  next
    case False
    with t show ?thesis
      by (intro exI [of _ "Suc 0"])
         (simp add: findAll_clauses findAll_params string_of_nat_1 placeholder_title_1)
  qed
  have all: "\<forall>cl \<in> set (queryWhereClauses (findAll_where c)).
        case placeholder_of cl of
          None \<Rightarrow> cl = ''equity > 0''
        | Some k \<Rightarrow> 0 < k \<and> k \<le> length (queryParameters (findAll_where c))"
    by (auto simp: findAll_clauses findAll_params placeholder_salary_1 placeholder_title_1
          placeholder_title_2 placeholder_equity)
  have sent: "(let clauses =
              (if minSalary c \<noteq> JUndefined then [''salary >= $1''] else [])
              @ (if hasEquity c = JBool True then [''equity > 0''] else [])
              @ (if title c \<noteq> JUndefined
                 then [''title ILIKE $'' @ (if minSalary c \<noteq> JUndefined then ''2'' else ''1'')] else []);
            params =
              (if minSalary c \<noteq> JUndefined then [minSalary c] else [])
              @ (if title c \<noteq> JUndefined then [JStr (''%'' @ to_string (title c) @ ''%'')] else []);
            query =
              base_query
              @ (if clauses = [] then [] else '' WHERE '' @ join '' AND '' clauses)
              @ '' ORDER BY title''
        in Job_findAll db c = (db query params, [(query, params)]))"
    using Job_findAll_closed [of db c] by (simp add: Let_def)
  show ?thesis
    using findAll_clauses [of c] findAll_params [of c] findAll_query_eq [of c] sal tit all sent
    by blast
qed

theorem findAll_fixed_order_witness:
  "minSalary \<lparr> minSalary = JNum 100, hasEquity = JUndefined, title = JStr ''eng'' \<rparr> \<noteq> JUndefined
   \<and> title \<lparr> minSalary = JNum 100, hasEquity = JUndefined, title = JStr ''eng'' \<rparr> \<noteq> JUndefined
   \<and> queryWhereClauses (findAll_where \<lparr> minSalary = JNum 100, hasEquity = JUndefined, title = JStr ''eng'' \<rparr>)
       = [''salary >= $1'', ''title ILIKE $2'']
   \<and> queryParameters (findAll_where \<lparr> minSalary = JNum 100, hasEquity = JUndefined, title = JStr ''eng'' \<rparr>)
       = [JNum 100, JStr ''%eng%'']
   \<and> findAll_query \<lparr> minSalary = JNum 100, hasEquity = JUndefined, title = JStr ''eng'' \<rparr>
       = base_query @ '' WHERE salary >= $1 AND title ILIKE $2 ORDER BY title''
   \<and> findAll_query \<lparr> minSalary = JNum 100, hasEquity = JBool True, title = JStr ''eng'' \<rparr>
       = base_query @ '' WHERE salary >= $1 AND equity > 0 AND title ILIKE $2 ORDER BY title''
   \<and> queryParameters (findAll_where \<lparr> minSalary = JNum 100, hasEquity = JBool True, title = JStr ''eng'' \<rparr>)
       = [JNum 100, JStr ''%eng%'']
   \<and> snd (Job_findAll (\<lambda>sql params. []) \<lparr> minSalary = JNum 100, hasEquity = JUndefined, title = JStr ''eng'' \<rparr>) =
       [(base_query @ '' WHERE salary >= $1 AND title ILIKE $2 ORDER BY title'', [JNum 100, JStr ''%eng%''])]
   \<and> snd (Job_findAll (\<lambda>sql params. []) \<lparr> minSalary = JNum 100, hasEquity = JBool True, title = JStr ''eng'' \<rparr>) =
       [(base_query @ '' WHERE salary >= $1 AND equity > 0 AND title ILIKE $2 ORDER BY title'',
         [JNum 100, JStr ''%eng%''])]"
  using findAll_fixed_order [where c = "\<lparr> minSalary = JNum 100, hasEquity = JUndefined, title = JStr ''eng'' \<rparr>"
                               and db = "\<lambda>sql params. []"]
        findAll_fixed_order [where c = "\<lparr> minSalary = JNum 100, hasEquity = JBool True, title = JStr ''eng'' \<rparr>"
                               and db = "\<lambda>sql params. []"]
  by (simp add: Let_def)

text \<open>
  C6. A title string adds exactly one value at the end of the value list, the title
  between two \<open>%\<close>, and exactly one clause at the end of the clauses,
  \<open>title ILIKE $n\<close> with \<open>n\<close> the position of that value. The clauses and the
  statement are the same for any two title strings: the title is in the value
  list only. \<open>Job.findAll\<close> sends to the database, once, the statement whose last
  clause is \<open>title ILIKE $1\<close> or \<open>$2\<close> (after the salary and equity clauses, if
  any), in which the title does not occur, with the salary (if any) and the pattern
  \<open>%title%\<close> as its values; the statement sent is the same for any two titles.
\<close>

theorem title_is_bound_parameter:
  "queryParameters (findAll_where (c\<lparr>title := JStr t\<rparr>)) =
     queryParameters (findAll_where (c\<lparr>title := JUndefined\<rparr>)) @ [JStr (''%'' @ t @ ''%'')]
   \<and> queryWhereClauses (findAll_where (c\<lparr>title := JStr t\<rparr>)) =
       queryWhereClauses (findAll_where (c\<lparr>title := JUndefined\<rparr>))
       @ [''title ILIKE $'' @ string_of_nat (length (queryParameters (findAll_where (c\<lparr>title := JStr t\<rparr>))))]
   \<and> placeholder_of (last (queryWhereClauses (findAll_where (c\<lparr>title := JStr t\<rparr>)))) =
       Some (length (queryParameters (findAll_where (c\<lparr>title := JStr t\<rparr>))))
   \<and> last (queryParameters (findAll_where (c\<lparr>title := JStr t\<rparr>))) = JStr (''%'' @ t @ ''%'')
   \<and> queryWhereClauses (findAll_where (c\<lparr>title := JStr t\<rparr>)) =
       queryWhereClauses (findAll_where (c\<lparr>title := JStr t'\<rparr>))
   \<and> findAll_query (c\<lparr>title := JStr t\<rparr>) = findAll_query (c\<lparr>title := JStr t'\<rparr>)
   \<and> (let clauses =
              (if minSalary c \<noteq> JUndefined then [''salary >= $1''] else [])
              @ (if hasEquity c = JBool True then [''equity > 0''] else [])
              @ [''title ILIKE $'' @ (if minSalary c \<noteq> JUndefined then ''2'' else ''1'')];
            params =
              (if minSalary c \<noteq> JUndefined then [minSalary c] else []) @ [JStr (''%'' @ t @ ''%'')];
            query = base_query @ '' WHERE '' @ join '' AND '' clauses @ '' ORDER BY title''
        in Job_findAll db (c\<lparr>title := JStr t\<rparr>) = (db query params, [(query, params)]))
   \<and> map fst (snd (Job_findAll db (c\<lparr>title := JStr t\<rparr>))) =
       map fst (snd (Job_findAll db (c\<lparr>title := JStr t'\<rparr>)))"
proof -
  have p: "queryParameters (findAll_where (c\<lparr>title := JStr t\<rparr>)) =
     queryParameters (findAll_where (c\<lparr>title := JUndefined\<rparr>)) @ [JStr (''%'' @ t @ ''%'')]"
    by (simp add: findAll_params)
  have w: "queryWhereClauses (findAll_where (c\<lparr>title := JStr t\<rparr>)) =
       queryWhereClauses (findAll_where (c\<lparr>title := JUndefined\<rparr>))
       @ [''title ILIKE $'' @ string_of_nat (length (queryParameters (findAll_where (c\<lparr>title := JStr t\<rparr>))))]"
    by (simp add: where_defs Let_def)
  have ph: "placeholder_of (last (queryWhereClauses (findAll_where (c\<lparr>title := JStr t\<rparr>)))) =
       Some (length (queryParameters (findAll_where (c\<lparr>title := JStr t\<rparr>))))"
    using placeholder_of_dollar [of "''title ILIKE ''"] by (simp add: w)
  have l: "last (queryParameters (findAll_where (c\<lparr>title := JStr t\<rparr>))) = JStr (''%'' @ t @ ''%'')"
    by (simp add: p)
  have e: "queryWhereClauses (findAll_where (c\<lparr>title := JStr t\<rparr>)) =
       queryWhereClauses (findAll_where (c\<lparr>title := JStr t'\<rparr>))"
    by (simp add: findAll_clauses)
  have q: "findAll_query (c\<lparr>title := JStr t\<rparr>) = findAll_query (c\<lparr>title := JStr t'\<rparr>)"
    by (simp add: findAll_query_eq e)
  have sent: "(let clauses =
              (if minSalary c \<noteq> JUndefined then [''salary >= $1''] else [])
              @ (if hasEquity c = JBool True then [''equity > 0''] else [])
              @ [''title ILIKE $'' @ (if minSalary c \<noteq> JUndefined then ''2'' else ''1'')];
            params =
              (if minSalary c \<noteq> JUndefined then [minSalary c] else []) @ [JStr (''%'' @ t @ ''%'')];
            query = base_query @ '' WHERE '' @ join '' AND '' clauses @ '' ORDER BY title''
        in Job_findAll db (c\<lparr>title := JStr t\<rparr>) = (db query params, [(query, params)]))"
    by (simp add: Job_findAll_closed Let_def)
  have same: "map fst (snd (Job_findAll db (c\<lparr>title := JStr t\<rparr>))) =
       map fst (snd (Job_findAll db (c\<lparr>title := JStr t'\<rparr>)))"
    by (simp add: Job_findAll_closed Let_def)
  show ?thesis using p w ph l e q sent same by blast
qed

theorem title_is_bound_parameter_witness:
  "queryParameters (findAll_where (no_criteria\<lparr>title := JStr ''eng''\<rparr>)) = [JStr ''%eng%'']
   \<and> queryWhereClauses (findAll_where (no_criteria\<lparr>title := JStr ''eng''\<rparr>)) = [''title ILIKE $1'']
   \<and> findAll_query (no_criteria\<lparr>title := JStr ''eng''\<rparr>) =
       findAll_query (no_criteria\<lparr>title := JStr ''x; DROP TABLE jobs''\<rparr>)
   \<and> snd (Job_findAll (\<lambda>sql params. []) (no_criteria\<lparr>title := JStr ''eng''\<rparr>)) =
       [(base_query @ '' WHERE title ILIKE $1 ORDER BY title'', [JStr ''%eng%''])]
   \<and> snd (Job_findAll (\<lambda>sql params. []) (no_criteria\<lparr>title := JStr ''x; DROP TABLE jobs''\<rparr>)) =
       [(base_query @ '' WHERE title ILIKE $1 ORDER BY title'', [JStr ''%x; DROP TABLE jobs%''])]"
  using title_is_bound_parameter [where c = no_criteria and t = "''eng''" and t' = "''x; DROP TABLE jobs''"
                                    and db = "\<lambda>sql params. []"]
  by (simp add: no_criteria_def where_defs string_of_nat_1 Job_findAll_def findAll_query_def Let_def)

lemma base_query_no_where: "\<not> sublist ''WHERE'' (base_query @ '' ORDER BY title'')"
  by (simp add: base_query_def dq_def nl_def sublist_code)

text \<open>
  C7. Without criteria there is no clause and no value, the statement is the base
  query followed by the sort and nothing else, and the word \<open>WHERE\<close> does not
  occur in it. The same holds for any criteria that produce no clause, which are
  those with no \<open>minSalary\<close>, no \<open>title\<close> and a \<open>hasEquity\<close> other than \<open>true\<close>.
  For every criteria the statement starts with the base query and ends with
  \<open>ORDER BY title\<close>.
\<close>

theorem no_criteria_no_where:
  "findAll_where no_criteria = \<lparr> queryWhereClauses = [], queryParameters = [] \<rparr>
   \<and> findAll_query no_criteria = base_query @ '' ORDER BY title''
   \<and> \<not> sublist ''WHERE'' (findAll_query no_criteria)
   \<and> (queryWhereClauses (findAll_where c) = []) =
       (minSalary c = JUndefined \<and> hasEquity c \<noteq> JBool True \<and> title c = JUndefined)
   \<and> (queryWhereClauses (findAll_where c) = [] \<longrightarrow>
        queryParameters (findAll_where c) = []
        \<and> findAll_query c = base_query @ '' ORDER BY title''
        \<and> Job_findAll db c = (db (base_query @ '' ORDER BY title'') [], [(base_query @ '' ORDER BY title'', [])]))
   \<and> prefix base_query (findAll_query c)
   \<and> suffix '' ORDER BY title'' (findAll_query c)"
proof -
  have a: "findAll_where no_criteria = \<lparr> queryWhereClauses = [], queryParameters = [] \<rparr>"
    by (simp add: where_defs no_criteria_def)
  have b: "findAll_query no_criteria = base_query @ '' ORDER BY title''"
    by (simp add: findAll_query_eq a)
  have n: "\<not> sublist ''WHERE'' (findAll_query no_criteria)"
    unfolding b by (rule base_query_no_where)
  have z: "(queryWhereClauses (findAll_where c) = []) =
       (minSalary c = JUndefined \<and> hasEquity c \<noteq> JBool True \<and> title c = JUndefined)"
    by (simp add: findAll_clauses)
  have e: "queryParameters (findAll_where c) = []
        \<and> findAll_query c = base_query @ '' ORDER BY title''
        \<and> Job_findAll db c = (db (base_query @ '' ORDER BY title'') [], [(base_query @ '' ORDER BY title'', [])])"
    if "queryWhereClauses (findAll_where c) = []"
  proof -
    have "minSalary c = JUndefined \<and> title c = JUndefined" using that z by simp
    then have p: "queryParameters (findAll_where c) = []" by (simp add: findAll_params)
    have q: "findAll_query c = base_query @ '' ORDER BY title''"
      using that by (simp add: findAll_query_eq)
    show ?thesis using p q by (simp add: Job_findAll_def Let_def)
  qed
  have pre: "prefix base_query (findAll_query c)"
    by (simp add: findAll_query_eq)
  have suf: "suffix '' ORDER BY title'' (findAll_query c)"
    unfolding findAll_query_eq by (intro suffixI [of _ "base_query @ _"]) simp
  show ?thesis using a b n z e pre suf by blast
qed

theorem no_criteria_no_where_witness:
  "queryWhereClauses (findAll_where \<lparr> minSalary = JUndefined, hasEquity = JBool False, title = JUndefined \<rparr>) = []
   \<and> Job_findAll (\<lambda>sql params. []) \<lparr> minSalary = JUndefined, hasEquity = JBool False, title = JUndefined \<rparr>
       = ([], [(base_query @ '' ORDER BY title'', [])])"
  using no_criteria_no_where
          [where c = "\<lparr> minSalary = JUndefined, hasEquity = JBool False, title = JUndefined \<rparr>"
             and db = "\<lambda>sql params. []"]
  by (simp add: where_defs)

section \<open>Reading one job with its company\<close>


lemma map_of_js_set: "map_of (js_set obj k v) = (map_of obj)(k \<mapsto> v)"
  by (induction obj) auto

lemma map_of_js_delete: "map_of (js_delete obj k) = (map_of obj)(k := None)"
  by (induction obj) (auto simp: js_delete_def)

lemma js_get_js_set: "js_get (js_set obj k v) k' = (if k' = k then v else js_get obj k')"
  by (simp add: js_get_def Object_prototype_def map_of_js_set)

lemma get_sql_distinct: "get_company_sql \<noteq> get_job_sql"
  by (simp add: get_company_sql_def get_job_sql_def)

lemma Job_get_empty:
  "db get_job_sql [jid] = [] \<Longrightarrow>
   Job_get db jid = (Inl (NotFoundError (JStr (''No job: '' @ to_string jid))), [(get_job_sql, [jid])])"
  by (simp add: Job_get_def)

lemma Job_get_row:
  "db get_job_sql [jid] = job # rest \<Longrightarrow>
   Job_get db jid =
     (Inr (js_set (js_delete job ''companyHandle'') ''company''
             (first_row (db get_company_sql [js_get job ''companyHandle'']))),
      [(get_job_sql, [jid]), (get_company_sql, [js_get job ''companyHandle''])])"
  by (simp add: Job_get_def Let_def)

text \<open>
  C8. \<open>Job.get\<close> first looks the job up by id. If no row comes back it fails with
  the not-found error whose message is \<open>No job:\<close> followed by the id, and that
  lookup is the only statement sent. If a row comes back it sends the company lookup
  with the row's \<open>companyHandle\<close> as its one parameter, and returns the row without
  its \<open>companyHandle\<close> property and with a \<open>company\<close> property holding the first
  row of the company lookup (\<open>undefined\<close> should that lookup return no row); every
  other property of the row is unchanged. So it fails exactly when the first lookup
  is empty, and the company statement is sent exactly when it is not.
\<close>

theorem Job_get_two_step:
  "(case db get_job_sql [jid] of
      [] \<Rightarrow>
        Job_get db jid =
          (Inl (NotFoundError (JStr (''No job: '' @ to_string jid))), [(get_job_sql, [jid])])
    | job # rest \<Rightarrow>
        (\<exists>job'. Job_get db jid =
                  (Inr job', [(get_job_sql, [jid]), (get_company_sql, [js_get job ''companyHandle''])])
           \<and> map_of job' ''companyHandle'' = None
           \<and> js_get job' ''company'' = first_row (db get_company_sql [js_get job ''companyHandle''])
           \<and> (\<forall>k. k \<noteq> ''companyHandle'' \<longrightarrow> k \<noteq> ''company'' \<longrightarrow> map_of job' k = map_of job k)))
   \<and> (\<exists>e. fst (Job_get db jid) = Inl e) = (db get_job_sql [jid] = [])
   \<and> (\<exists>p. (get_company_sql, p) \<in> set (snd (Job_get db jid))) = (db get_job_sql [jid] \<noteq> [])"
proof (cases "db get_job_sql [jid]")
  case Nil
  then show ?thesis
    using Job_get_empty [of db jid] get_sql_distinct by simp
next
  case (Cons job rest)
  let ?job' = "js_set (js_delete job ''companyHandle'') ''company''
             (first_row (db get_company_sql [js_get job ''companyHandle'']))"
  have a: "map_of ?job' ''companyHandle'' = None"
    by (simp add: map_of_js_set map_of_js_delete)
  have b: "js_get ?job' ''company'' = first_row (db get_company_sql [js_get job ''companyHandle''])"
    by (simp add: js_get_js_set)
  have c: "\<forall>k. k \<noteq> ''companyHandle'' \<longrightarrow> k \<noteq> ''company'' \<longrightarrow> map_of ?job' k = map_of job k"
    by (simp add: map_of_js_set map_of_js_delete)
  show ?thesis
    using Job_get_row [of db jid job rest] a b c Cons by auto
qed

theorem Job_get_two_step_witness:
  "Job_get (\<lambda>sql params. []) (JNum 7) =
     (Inl (NotFoundError (JStr ''No job: 7'')), [(get_job_sql, [JNum 7])])
   \<and> Job_get (\<lambda>sql params. if sql = get_job_sql
                  then [[(''id'', JNum 1), (''title'', JStr ''j1''), (''companyHandle'', JStr ''c1'')]]
                  else [[(''handle'', JStr ''c1''), (''name'', JStr ''C1'')]]) (JNum 1) =
     (Inr [(''id'', JNum 1), (''title'', JStr ''j1''),
           (''company'', JObj [(''handle'', JStr ''c1''), (''name'', JStr ''C1'')])],
      [(get_job_sql, [JNum 1]), (get_company_sql, [JStr ''c1''])])"
  using Job_get_two_step [of "\<lambda>sql params. []" "JNum 7"]
        Job_get_two_step [of "\<lambda>sql params. if sql = get_job_sql
                  then [[(''id'', JNum 1), (''title'', JStr ''j1''), (''companyHandle'', JStr ''c1'')]]
                  else [[(''handle'', JStr ''c1''), (''name'', JStr ''C1'')]]" "JNum 1"]
  by (simp add: Job_get_def Let_def get_sql_distinct js_get_def Object_prototype_def js_delete_def first_row_def
        string_of_int_def string_of_nat.simps digit_char_def)

section \<open>The companies list handler\<close>


lemma js_get_coerce_min:
  "js_get (coerce_bounds to_number query) ''minEmployees'' =
     (if js_get query ''minEmployees'' = JUndefined then JUndefined
      else to_number (js_get query ''minEmployees''))"
  by (simp add: coerce_bounds_def Let_def js_get_js_set)

lemma js_get_coerce_max:
  "js_get (coerce_bounds to_number query) ''maxEmployees'' =
     (if js_get query ''maxEmployees'' = JUndefined then JUndefined
      else to_number (js_get query ''maxEmployees''))"
  by (simp add: coerce_bounds_def Let_def js_get_js_set)

lemma js_get_coerce_other:
  "k \<noteq> ''minEmployees'' \<Longrightarrow> k \<noteq> ''maxEmployees'' \<Longrightarrow>
   js_get (coerce_bounds to_number query) k = js_get query k"
  by (simp add: coerce_bounds_def Let_def js_get_js_set)

text \<open>
  What the handler does with any validation: it coerces the two bounds, asks the
  validation, and calls \<open>Company.findAll\<close> with the coerced query exactly when the
  validation succeeds; otherwise it answers with the bad-request error that carries
  the validation's messages. It compares no bounds itself.
\<close>

lemma companies_get_gate:
  "snd (companies_get to_number validate findAll query) =
     (if valid (validate (coerce_bounds to_number query)) then [coerce_bounds to_number query] else [])
   \<and> (\<not> valid (validate (coerce_bounds to_number query)) \<longrightarrow>
        fst (companies_get to_number validate findAll query) =
          Inl (BadRequestError (JArr (map (\<lambda>e. js_get e ''stack'')
                 (errors (validate (coerce_bounds to_number query)))))))
   \<and> (valid (validate (coerce_bounds to_number query)) \<longrightarrow>
        fst (companies_get to_number validate findAll query) =
          (case findAll (coerce_bounds to_number query) of
             Inl err \<Rightarrow> Inl err
           | Inr companies \<Rightarrow> Inr (JObj [(''companies'', JArr (map JObj companies))])))
   \<and> js_get (coerce_bounds to_number query) ''minEmployees'' =
       (if js_get query ''minEmployees'' = JUndefined then JUndefined
        else to_number (js_get query ''minEmployees''))
   \<and> js_get (coerce_bounds to_number query) ''maxEmployees'' =
       (if js_get query ''maxEmployees'' = JUndefined then JUndefined
        else to_number (js_get query ''maxEmployees''))
   \<and> (\<forall>k. k \<noteq> ''minEmployees'' \<longrightarrow> k \<noteq> ''maxEmployees'' \<longrightarrow>
          js_get (coerce_bounds to_number query) k = js_get query k)"
proof -
  have s: "snd (companies_get to_number validate findAll query) =
     (if valid (validate (coerce_bounds to_number query)) then [coerce_bounds to_number query] else [])"
    by (simp add: companies_get_def Let_def split: sum.split)
  have r: "fst (companies_get to_number validate findAll query) =
          Inl (BadRequestError (JArr (map (\<lambda>e. js_get e ''stack'')
                 (errors (validate (coerce_bounds to_number query))))))"
    if "\<not> valid (validate (coerce_bounds to_number query))"
    using that by (simp add: companies_get_def Let_def)
  have a: "fst (companies_get to_number validate findAll query) =
          (case findAll (coerce_bounds to_number query) of
             Inl err \<Rightarrow> Inl err
           | Inr companies \<Rightarrow> Inr (JObj [(''companies'', JArr (map JObj companies))]))"
    if "valid (validate (coerce_bounds to_number query))"
    using that by (simp add: companies_get_def Let_def split: sum.split)
  show ?thesis
    using s r a js_get_coerce_min [of to_number query] js_get_coerce_max [of to_number query]
      js_get_coerce_other [of _ to_number query]
    by blast
qed

lemma ordered_range_reaches_builder:
  "companies_get decimal_to_number companySearch_validate (\<lambda>q. Inr [])
     [(''minEmployees'', JStr ''2''), (''maxEmployees'', JStr ''3'')] =
   (Inr (JObj [(''companies'', JArr [])]),
    [[(''minEmployees'', JNum 2), (''maxEmployees'', JNum 3)]])"
  by (simp add: companies_get_def coerce_bounds_def companySearch_validate_def Object_keys_def Let_def
        js_get_def Object_prototype_def decimal_to_number_def nat_of_string_def digit_of_char_def)

text \<open>
  C9. Against the validation as the spec describes it: whenever both bounds are
  present in the request and, as numbers, the lower one is greater than the upper
  one, the handler rejects the request with the bad-request error that carries the
  \<open>InvalidRange\<close> error of the validation, and \<open>Company.findAll\<close> is not called, so
  the builder is never reached with such input and produces no query for it.
\<close>

theorem inverted_range_rejected:
  assumes "js_get query ''minEmployees'' \<noteq> JUndefined"
    and "to_number (js_get query ''minEmployees'') = JNum lower"
    and "js_get query ''maxEmployees'' \<noteq> JUndefined"
    and "to_number (js_get query ''maxEmployees'') = JNum upper"
    and "upper < lower"
  shows "\<exists>errs. companies_get to_number companySearch_validate findAll query =
                  (Inl (BadRequestError (JArr errs)), [])
               \<and> JStr ''InvalidRange'' \<in> set errs"
proof -
  let ?q = "coerce_bounds to_number query"
  have lo: "js_get ?q ''minEmployees'' = JNum lower"
    using assms(1,2) by (simp add: js_get_coerce_min)
  have hi: "js_get ?q ''maxEmployees'' = JNum upper"
    using assms(3,4) by (simp add: js_get_coerce_max)
  have stack: "js_get [(''stack'', JStr ''InvalidRange'')] ''stack'' = JStr ''InvalidRange''"
    by (simp add: js_get_def)
  have inv: "\<not> valid (companySearch_validate ?q)"
    using lo hi assms(5) by (simp add: companySearch_validate_def Let_def)
  have mem: "JStr ''InvalidRange'' \<in> set (map (\<lambda>e. js_get e ''stack'') (errors (companySearch_validate ?q)))"
    using lo hi assms(5) stack by (simp add: companySearch_validate_def Let_def)
  show ?thesis
    using inv mem by (simp add: companies_get_def Let_def)
qed

theorem inverted_range_rejected_witness:
  "js_get [(''minEmployees'', JStr ''5''), (''maxEmployees'', JStr ''1'')] ''minEmployees'' \<noteq> JUndefined
   \<and> decimal_to_number (js_get [(''minEmployees'', JStr ''5''), (''maxEmployees'', JStr ''1'')] ''minEmployees'') = JNum 5
   \<and> js_get [(''minEmployees'', JStr ''5''), (''maxEmployees'', JStr ''1'')] ''maxEmployees'' \<noteq> JUndefined
   \<and> decimal_to_number (js_get [(''minEmployees'', JStr ''5''), (''maxEmployees'', JStr ''1'')] ''maxEmployees'') = JNum 1
   \<and> (1::int) < 5
   \<and> companies_get decimal_to_number companySearch_validate (\<lambda>q. Inr [])
        [(''minEmployees'', JStr ''5''), (''maxEmployees'', JStr ''1'')] =
      (Inl (BadRequestError (JArr [JStr ''InvalidRange''])), [])"
  using inverted_range_rejected [of "[(''minEmployees'', JStr ''5''), (''maxEmployees'', JStr ''1'')]"
          decimal_to_number 5 1 "\<lambda>q. Inr []"]
  by (simp add: companies_get_def coerce_bounds_def companySearch_validate_def Object_keys_def Let_def
        js_get_def Object_prototype_def decimal_to_number_def nat_of_string_def digit_of_char_def)

end
